theory Spec2Isabelle
  imports Main
begin

section \<open>Python values and dictionaries\<close>

text \<open>
  The program is dynamically typed: a decoded JSON document, a form field and the
  attribute of an ORM object are all Python values. \<open>pyval\<close> is the part of that
  universe the program handles: \<open>None\<close>, booleans, integers, strings, lists and
  dictionaries (JSON numbers with a fraction are left out).
  A dictionary is the list of its items in insertion order; a lookup reads the first
  item with the key, and a dictionary built by \<open>dict_set\<close> has each key once.
\<close>

datatype pyval =
    PNone
  | PBool bool
  | PInt int
  | PStr string
  | PList "pyval list"
  | PDict "(string \<times> pyval) list"

type_synonym dict = "(string \<times> pyval) list"

text \<open>\<open>d.get(k, default)\<close>\<close>

definition dict_get :: "dict \<Rightarrow> string \<Rightarrow> pyval \<Rightarrow> pyval" where
  "dict_get d k dflt = (case map_of d k of None \<Rightarrow> dflt | Some v \<Rightarrow> v)"

text \<open>\<open>d[k] = v\<close>: an existing key keeps its place, a new key goes to the end.\<close>

fun dict_set :: "dict \<Rightarrow> string \<Rightarrow> pyval \<Rightarrow> dict" where
  "dict_set [] k v = [(k, v)]"
| "dict_set ((k', v') # d) k v =
     (if k' = k then (k, v) # d else (k', v') # dict_set d k v)"

text \<open>\<open>{**a, **b}\<close>: the items of \<open>a\<close>, then each item of \<open>b\<close> stored in turn.\<close>

definition dict_merge :: "dict \<Rightarrow> dict \<Rightarrow> dict" where
  "dict_merge a b = foldl (\<lambda>d kv. dict_set d (fst kv) (snd kv)) a b"

text \<open>Truth value of a Python value, as \<open>if v:\<close> and \<open>not v\<close> test it.\<close>

fun truthy :: "pyval \<Rightarrow> bool" where
  "truthy PNone = False"
| "truthy (PBool b) = b"
| "truthy (PInt n) = (n \<noteq> 0)"
| "truthy (PStr s) = (s \<noteq> [])"
| "truthy (PList vs) = (vs \<noteq> [])"
| "truthy (PDict d) = (d \<noteq> [])"

section \<open>Exceptions\<close>

text \<open>
  The exceptions of the \<open>requests\<close> library all derive from
  \<open>requests.RequestException\<close>; the ones listed are those a GET and the decoding of
  its body raise. \<open>JSONDecodeError\<close> is the exception of \<open>response.json()\<close> on a body
  that is no JSON document; it derives from \<open>RequestException\<close> since requests 2.27.
\<close>

datatype request_exception =
    ConnectionError
  | Timeout
  | TooManyRedirects
  | InvalidURL
  | HTTPError int
  | JSONDecodeError

datatype exn =
    RequestException request_exception
  | BadRequestKeyError string
  | AttributeError string
  | IntegrityError string
  | InterfaceError string
  | TypeError string

section \<open>Methods of Python values\<close>

text \<open>
  \<open>v.get(k, default)\<close> on a Python value: a dictionary answers, every other value has
  no attribute \<open>get\<close>, and the AttributeError carries the message given here.
\<close>

fun type_name :: "pyval \<Rightarrow> string" where
  "type_name PNone = ''NoneType''"
| "type_name (PBool b) = ''bool''"
| "type_name (PInt n) = ''int''"
| "type_name (PStr s) = ''str''"
| "type_name (PList vs) = ''list''"
| "type_name (PDict d) = ''dict''"

definition no_attribute :: "string \<Rightarrow> string \<Rightarrow> string" where
  "no_attribute cls name =
     [CHR 0x27] @ cls @ [CHR 0x27] @ '' object has no attribute '' @ [CHR 0x27] @ name @ [CHR 0x27]"

definition py_get :: "pyval \<Rightarrow> string \<Rightarrow> pyval \<Rightarrow> string + pyval" where
  "py_get v k dflt =
     (case v of
        PDict d \<Rightarrow> Inr (dict_get d k dflt)
      | _ \<Rightarrow> Inl (no_attribute (type_name v) ''get''))"

text \<open>The same as a statement of a route: the value, or the AttributeError raised.\<close>

definition details_get :: "pyval \<Rightarrow> string \<Rightarrow> pyval \<Rightarrow> exn + pyval" where
  "details_get v k dflt =
     (case py_get v k dflt of Inl msg \<Rightarrow> Inl (AttributeError msg) | Inr x \<Rightarrow> Inr x)"

text \<open>
  \<open>{**a, **v}\<close> where \<open>a\<close> is a dictionary and \<open>v\<close> any value: only a dictionary can be
  unpacked with \<open>**\<close>, every other value raises TypeError.
\<close>

definition dict_unpack :: "dict \<Rightarrow> pyval \<Rightarrow> exn + dict" where
  "dict_unpack a v =
     (case v of
        PDict b \<Rightarrow> Inr (dict_merge a b)
      | _ \<Rightarrow> Inl (TypeError ([CHR 0x27] @ type_name v @ [CHR 0x27] @ '' object is not a mapping'')))"

section \<open>The metadata gateway: \<open>fetch_movie_details\<close> (app.py)\<close>

text \<open>
  What the network does is the input of the model: \<open>requests.get(url)\<close> either raises
  or returns a response with a status code and a body. The body either decodes to a
  JSON document, which is any value (an object, but also a list, a string, a number,
  \<open>null\<close>), or is malformed and does not decode. A call that never returns is outside
  the model.
\<close>

datatype http_body = JsonBody pyval | Malformed

datatype http_outcome = GetRaises request_exception | Response int http_body

text \<open>\<open>response.raise_for_status()\<close>: HTTPError for a 4xx or 5xx status.\<close>

definition raise_for_status :: "int \<Rightarrow> exn + unit" where
  "raise_for_status status_code =
     (if 400 \<le> status_code \<and> status_code < 600
      then Inl (RequestException (HTTPError status_code)) else Inr ())"

text \<open>\<open>response.json()\<close>: the decoded document, whatever its shape.\<close>

definition response_json :: "http_body \<Rightarrow> exn + pyval" where
  "response_json body =
     (case body of JsonBody v \<Rightarrow> Inr v | Malformed \<Rightarrow> Inl (RequestException JSONDecodeError))"

text \<open>The body of the \<open>try\<close> block; \<open>{}\<close> is \<open>PDict []\<close>.\<close>

definition fetch_try :: "http_outcome \<Rightarrow> exn + pyval" where
  "fetch_try out =
     (case out of
        GetRaises e \<Rightarrow> Inl (RequestException e)
      | Response status_code body \<Rightarrow>
          (case raise_for_status status_code of
             Inl e \<Rightarrow> Inl e
           | Inr _ \<Rightarrow>
               if status_code = 200 then response_json body
               else Inr (PDict [])))"

text \<open>
  \<open>except requests.RequestException\<close> turns such an exception into the empty
  dictionary (after printing it); any other exception leaves the function.
\<close>

definition fetch_movie_details :: "http_outcome \<Rightarrow> exn + pyval" where
  "fetch_movie_details out =
     (case fetch_try out of
        Inl (RequestException e) \<Rightarrow> Inr (PDict [])
      | Inl e \<Rightarrow> Inl e
      | Inr movie_data \<Rightarrow> Inr movie_data)"

section \<open>The relational store (data_models.py)\<close>

text \<open>
  The three tables, each the list of its rows in insertion order. The columns of a
  movie that the program fills from the form or from the gateway hold the Python value
  they were given (SQLite does not enforce the declared column types; its conversion
  of numeric-looking text in an Integer column is not modelled). A user id in a URL is
  the integer it denotes.
\<close>

record user =
  u_id :: int
  username :: string

record movie =
  m_id :: int
  title :: pyval
  year :: pyval
  genre :: pyval
  rating :: pyval
  director :: pyval
  m_user_id :: int
  imdbid :: pyval

record review =
  r_id :: int
  r_user_id :: int
  r_movie_id :: pyval
  review_text :: pyval
  r_rating :: pyval

record db =
  users :: "user list"
  movies :: "movie list"
  reviews :: "review list"

definition empty_db :: db where
  "empty_db = \<lparr>users = [], movies = [], reviews = []\<rparr>"

text \<open>
  An Integer primary key without AUTOINCREMENT: the new row gets one more than the
  largest id in the table, 1 in an empty table.
\<close>

definition next_id :: "int list \<Rightarrow> int" where
  "next_id ids = fold max ids 0 + 1"

text \<open>\<open>User.query.get(user_id)\<close>, \<open>user.movies\<close>, \<open>Movie.query.get(movie_id)\<close> and
  \<open>Movie.query.filter_by(imdbid=movie_id).first()\<close>.\<close>

definition User_query_get :: "int \<Rightarrow> db \<Rightarrow> user option" where
  "User_query_get user_id s = find (\<lambda>u. u_id u = user_id) (users s)"

definition user_movies :: "user \<Rightarrow> db \<Rightarrow> movie list" where
  "user_movies u s = filter (\<lambda>m. m_user_id m = u_id u) (movies s)"

definition Movie_query_get :: "int \<Rightarrow> db \<Rightarrow> movie option" where
  "Movie_query_get movie_id s = find (\<lambda>m. m_id m = movie_id) (movies s)"

definition movie_by_imdbid :: "string \<Rightarrow> db \<Rightarrow> movie option" where
  "movie_by_imdbid movie_id s = find (\<lambda>m. imdbid m = PStr movie_id) (movies s)"

subsection \<open>What a commit checks\<close>

text \<open>
  The constraints the declarations of \<open>Movie\<close> put on a row: a list or a dictionary
  cannot be bound to a statement; \<open>title\<close>, \<open>year\<close>, \<open>genre\<close>, \<open>rating\<close> and \<open>director\<close>
  are \<open>nullable=False\<close>; \<open>imdbid\<close> is \<open>unique=True\<close>, which SQL applies to every value
  but NULL. Foreign keys are not enforced by SQLite as the application opens it.
\<close>

fun bindable :: "pyval \<Rightarrow> bool" where
  "bindable (PList vs) = False"
| "bindable (PDict d) = False"
| "bindable v = True"

definition check_movie_row :: "movie \<Rightarrow> movie list \<Rightarrow> exn + unit" where
  "check_movie_row m others =
     (if \<not> list_all bindable [title m, year m, genre m, rating m, director m, imdbid m]
      then Inl (InterfaceError ''Error binding parameter'')
      else if PNone \<in> set [title m, year m, genre m, rating m, director m]
      then Inl (IntegrityError ''NOT NULL constraint failed'')
      else if imdbid m \<noteq> PNone \<and> imdbid m \<in> set (map imdbid others)
      then Inl (IntegrityError ''UNIQUE constraint failed: movie.imdbid'')
      else Inr ())"

text \<open>\<open>db.session.add(movie); db.session.commit()\<close>: the id is assigned by the store.\<close>

definition session_add_movie :: "movie \<Rightarrow> db \<Rightarrow> exn + db" where
  "session_add_movie m s =
     (let m' = m\<lparr>m_id := next_id (map m_id (movies s))\<rparr>
      in case check_movie_row m' (movies s) of
           Inl e \<Rightarrow> Inl e
         | Inr _ \<Rightarrow> Inr (s\<lparr>movies := movies s @ [m']\<rparr>))"

text \<open>The commit after the attributes of a loaded movie were assigned.\<close>

definition session_update_movie :: "movie \<Rightarrow> db \<Rightarrow> exn + db" where
  "session_update_movie m' s =
     (case check_movie_row m' (filter (\<lambda>x. m_id x \<noteq> m_id m') (movies s)) of
        Inl e \<Rightarrow> Inl e
      | Inr _ \<Rightarrow> Inr (s\<lparr>movies := map (\<lambda>x. if m_id x = m_id m' then m' else x) (movies s)\<rparr>))"

text \<open>
  \<open>db.session.delete(movie)\<close> for each movie of \<open>ms\<close>, then the commit. The relationship
  \<open>Movie.reviews\<close> is declared without a delete cascade, so the unit of work does not
  delete the reviews of a deleted movie: it sets the \<open>movie_id\<close> of each review whose
  \<open>movie_id\<close> is the movie's id to NULL, which the \<open>nullable=False\<close> of that column
  rejects; the commit then fails and nothing is written.
\<close>

definition review_of :: "movie list \<Rightarrow> review \<Rightarrow> bool" where
  "review_of ms r = (r_movie_id r \<in> set (map (\<lambda>m. PInt (m_id m)) ms))"

definition session_delete_movies :: "movie list \<Rightarrow> db \<Rightarrow> exn + db" where
  "session_delete_movies ms s =
     (if list_ex (review_of ms) (reviews s)
      then Inl (IntegrityError ''NOT NULL constraint failed: review.movie_id'')
      else Inr (s\<lparr>movies := filter (\<lambda>m. m_id m \<notin> set (map m_id ms)) (movies s)\<rparr>))"

text \<open>The same with \<open>db.session.delete(user)\<close> in the same commit.\<close>

definition session_delete_user :: "user \<Rightarrow> movie list \<Rightarrow> db \<Rightarrow> exn + db" where
  "session_delete_user u ms s =
     (case session_delete_movies ms s of
        Inl e \<Rightarrow> Inl e
      | Inr s' \<Rightarrow> Inr (s'\<lparr>users := filter (\<lambda>x. u_id x \<noteq> u_id u) (users s')\<rparr>))"

text \<open>\<open>User.add_user\<close>: a username from the form is a string, so the row is accepted.\<close>

definition User_add_user :: "string \<Rightarrow> db \<Rightarrow> db" where
  "User_add_user new_username s =
     s\<lparr>users := users s @ [\<lparr>u_id = next_id (map u_id (users s)), username = new_username\<rparr>]\<rparr>"

text \<open>\<open>Movie.to_dict\<close>\<close>

definition to_dict :: "movie \<Rightarrow> dict" where
  "to_dict m =
     [(''Id'', PInt (m_id m)), (''Title'', title m), (''Year'', year m),
      (''Genre'', genre m), (''Director'', director m), (''Rating'', rating m)]"

section \<open>The routes (app.py)\<close>

datatype http_method = GET | POST

type_synonym form = "(string \<times> string) list"

text \<open>\<open>request.form[k]\<close>: a missing field raises.\<close>

definition form_get :: "form \<Rightarrow> string \<Rightarrow> exn + string" where
  "form_get f k = (case map_of f k of None \<Rightarrow> Inl (BadRequestKeyError k) | Some v \<Rightarrow> Inr v)"

text \<open>
  What a route returns: a redirect to an endpoint (with its \<open>user_id\<close>), the error
  template with its message, another template, the movie list page with the merged
  records, a JSON answer with its status, or an exception no handler caught.
\<close>

datatype response =
    Redirect string "int option"
  | Render_error string
  | Render string
  | Render_movies "dict list" int
  | Json dict int
  | Uncaught exn

type_synonym net = "pyval \<Rightarrow> http_outcome"

subsection \<open>\<open>add_user\<close> and \<open>delete_user\<close>\<close>

definition add_user :: "http_method \<Rightarrow> form \<Rightarrow> db \<Rightarrow> response \<times> db" where
  "add_user method f s =
     (if method = POST then
        (case form_get f ''username'' of
           Inl e \<Rightarrow> (Render_error ''An error occurred while adding a user'', s)
         | Inr new_username \<Rightarrow> (Redirect ''list_users'' None, User_add_user new_username s))
      else (Render ''add_user.html'', s))"

definition delete_user :: "http_method \<Rightarrow> int \<Rightarrow> db \<Rightarrow> response \<times> db" where
  "delete_user method user_id s =
     (if method = POST then
        (case User_query_get user_id s of
           None \<Rightarrow> (Render_error ''User not found.'', s)
         | Some u \<Rightarrow>
             (case session_delete_user u (user_movies u s) s of
                Inl e \<Rightarrow> (Render_error ''An error occurred while deleting a user'', s)
              | Inr s' \<Rightarrow> (Redirect ''list_users'' None, s')))
      else (Render ''delete_user.html'', s))"

subsection \<open>\<open>add_movie\<close>\<close>

text \<open>
  \<open>if not movie_details\<close> tests the truth value of whatever the gateway returned; each
  \<open>movie_details.get\<close> raises on a value that is no dictionary.
\<close>

definition add_movie_try :: "net \<Rightarrow> int \<Rightarrow> form \<Rightarrow> db \<Rightarrow> exn + response \<times> db" where
  "add_movie_try nw user_id f s =
     (case form_get f ''movie_title'' of Inl e \<Rightarrow> Inl e | Inr movie_title \<Rightarrow>
     (case form_get f ''movie_rating'' of Inl e \<Rightarrow> Inl e | Inr movie_rating \<Rightarrow>
     (case fetch_movie_details (nw (PStr movie_title)) of Inl e \<Rightarrow> Inl e | Inr movie_details \<Rightarrow>
       (if \<not> truthy movie_details then Inr (Render_error ''Movie details not found.'', s)
        else
     (case details_get movie_details ''Year'' (PStr []) of Inl e \<Rightarrow> Inl e | Inr movie_year \<Rightarrow>
     (case details_get movie_details ''Genre'' (PStr []) of Inl e \<Rightarrow> Inl e | Inr movie_genre \<Rightarrow>
     (case details_get movie_details ''Director'' (PStr []) of Inl e \<Rightarrow> Inl e | Inr movie_director \<Rightarrow>
     (case details_get movie_details ''imdbID'' (PStr []) of Inl e \<Rightarrow> Inl e | Inr movie_imdbid \<Rightarrow>
     (case session_add_movie
             \<lparr>m_id = 0, title = PStr movie_title, year = movie_year, genre = movie_genre,
              rating = PStr movie_rating, director = movie_director, m_user_id = user_id,
              imdbid = movie_imdbid\<rparr> s of
        Inl e \<Rightarrow> Inl e
      | Inr s' \<Rightarrow> Inr (Redirect ''get_user_movies'' (Some user_id), s'))))))))))"

definition add_movie :: "net \<Rightarrow> http_method \<Rightarrow> int \<Rightarrow> form \<Rightarrow> db \<Rightarrow> response \<times> db" where
  "add_movie nw method user_id f s =
     (if method = POST then
        (case add_movie_try nw user_id f s of
           Inl e \<Rightarrow> (Render_error ''An error occurred while adding a movie'', s)
         | Inr r \<Rightarrow> r)
      else (Render ''add_movie.html'', s))"

subsection \<open>\<open>update_movie\<close>\<close>

definition update_movie_try ::
  "net \<Rightarrow> int \<Rightarrow> string \<Rightarrow> form \<Rightarrow> db \<Rightarrow> exn + response \<times> db" where
  "update_movie_try nw user_id movie_id f s =
     (case form_get f ''new_title'' of Inl e \<Rightarrow> Inl e | Inr new_title \<Rightarrow>
     (case form_get f ''new_rating'' of Inl e \<Rightarrow> Inl e | Inr new_rating \<Rightarrow>
     (case movie_by_imdbid movie_id s of
        None \<Rightarrow> Inr (Render_error ''Movie not found.'', s)
      | Some m \<Rightarrow>
     (case fetch_movie_details (nw (PStr new_title)) of Inl e \<Rightarrow> Inl e
      | Inr new_movie_details \<Rightarrow>
       (if \<not> truthy new_movie_details
        then Inr (Render_error ''New movie details not found.'', s)
        else
     (case details_get new_movie_details ''Title'' (title m) of Inl e \<Rightarrow> Inl e | Inr new_t \<Rightarrow>
     (case details_get new_movie_details ''Year'' (year m) of Inl e \<Rightarrow> Inl e | Inr new_y \<Rightarrow>
     (case details_get new_movie_details ''Genre'' (genre m) of Inl e \<Rightarrow> Inl e | Inr new_g \<Rightarrow>
     (case details_get new_movie_details ''Director'' (director m) of Inl e \<Rightarrow> Inl e | Inr new_d \<Rightarrow>
     (case details_get new_movie_details ''imdbID'' (imdbid m) of Inl e \<Rightarrow> Inl e | Inr new_i \<Rightarrow>
     (case session_update_movie
             (m\<lparr>title := new_t, year := new_y, genre := new_g, director := new_d,
                imdbid := new_i, rating := PStr new_rating\<rparr>) s of
        Inl e \<Rightarrow> Inl e
      | Inr s' \<Rightarrow> Inr (Redirect ''get_user_movies'' (Some user_id), s'))))))))))))"

definition update_movie ::
  "net \<Rightarrow> http_method \<Rightarrow> int \<Rightarrow> string \<Rightarrow> form \<Rightarrow> db \<Rightarrow> response \<times> db" where
  "update_movie nw method user_id movie_id f s =
     (if method = POST then
        (case update_movie_try nw user_id movie_id f s of
           Inl e \<Rightarrow> (Render_error ''An error occurred while updating a movie'', s)
         | Inr r \<Rightarrow> r)
      else
        (case User_query_get user_id s of
           None \<Rightarrow> (Render_error ''An error occurred while retrieving a movie for update'', s)
         | Some u \<Rightarrow>
             (case find (\<lambda>m. imdbid m = PStr movie_id) (user_movies u s) of
                Some m \<Rightarrow> (Render ''update_movie.html'', s)
              | None \<Rightarrow> (Render_error ''Movie not found.'', s))))"

subsection \<open>\<open>delete_movie\<close>\<close>

text \<open>\<open>request.args.get('movie_id')\<close> is \<open>None\<close> when the query has no such field.\<close>

definition delete_movie :: "http_method \<Rightarrow> int \<Rightarrow> form \<Rightarrow> db \<Rightarrow> response \<times> db" where
  "delete_movie method user_id args s =
     (case User_query_get user_id s of
        None \<Rightarrow> (Render_error ''User not found.'', s)
      | Some u \<Rightarrow>
          if method = POST then
            (let movie_id = (case map_of args ''movie_id'' of None \<Rightarrow> PNone | Some v \<Rightarrow> PStr v)
             in (case find (\<lambda>m. imdbid m = movie_id) (user_movies u s) of
                   Some movie_to_delete \<Rightarrow>
                     (case session_delete_movies [movie_to_delete] s of
                        Inl e \<Rightarrow> (Render_error ''An error occurred while deleting a movie'', s)
                      | Inr s' \<Rightarrow> (Redirect ''get_user_movies'' (Some user_id), s'))
                 | None \<Rightarrow> (Render_error ''Movie not found.'', s)))
          else (Render ''delete_movie.html'', s))"

subsection \<open>\<open>add_review\<close>\<close>

text \<open>
  The review is stored with the \<open>movie_id\<close> of the URL, which is the imdb id the movie
  was found by, not the movie's own id.
\<close>

definition add_review ::
  "http_method \<Rightarrow> int \<Rightarrow> string \<Rightarrow> form \<Rightarrow> db \<Rightarrow> response \<times> db" where
  "add_review method user_id movie_id f s =
     (if method = POST then
        (case form_get f ''review_text'' of
           Inl e \<Rightarrow> (Render_error ''An error occurred while adding a review'', s)
         | Inr new_text \<Rightarrow>
        (case form_get f ''rating'' of
           Inl e \<Rightarrow> (Render_error ''An error occurred while adding a review'', s)
         | Inr new_rating \<Rightarrow>
        (case User_query_get user_id s of
           None \<Rightarrow> (Render_error ''User not found.'', s)
         | Some u \<Rightarrow>
        (case movie_by_imdbid movie_id s of
           None \<Rightarrow> (Render_error ''Movie not found.'', s)
         | Some m \<Rightarrow>
             (Redirect ''get_user_movies'' (Some user_id),
              s\<lparr>reviews := reviews s @
                   [\<lparr>r_id = next_id (map r_id (reviews s)), r_user_id = user_id,
                     r_movie_id = PStr movie_id, review_text = PStr new_text,
                     r_rating = PStr new_rating\<rparr>]\<rparr>)))))
      else
        (case User_query_get user_id s of
           None \<Rightarrow> (Render_error ''An error occurred while retrieving a movie for review'', s)
         | Some u \<Rightarrow>
             (case find (\<lambda>m. imdbid m = PStr movie_id) (user_movies u s) of
                Some m \<Rightarrow> (Render ''add_review.html'', s)
              | None \<Rightarrow> (Render_error ''Movie not found.'', s))))"

subsection \<open>\<open>add_user_movie\<close> (the JSON API)\<close>

definition add_user_movie :: "int \<Rightarrow> dict \<Rightarrow> db \<Rightarrow> response \<times> db" where
  "add_user_movie user_id data s =
     (case User_query_get user_id s of
        None \<Rightarrow> (Json [(''error'', PStr ''User not found'')] 404, s)
      | Some u \<Rightarrow>
          let new_title = dict_get data ''title'' PNone;
              new_year = dict_get data ''year'' PNone
          in if \<not> truthy new_title \<or> \<not> truthy new_year
             then (Json [(''error'', PStr ''Title and year are required'')] 400, s)
             else
               (case session_add_movie
                       \<lparr>m_id = 0, title = new_title, year = new_year, genre = PNone,
                        rating = PNone, director = PNone, m_user_id = u_id u,
                        imdbid = PNone\<rparr> s of
                  Inl e \<Rightarrow> (Uncaught e, s)
                | Inr s' \<Rightarrow> (Json [(''message'', PStr ''Movie added successfully'')] 200, s')))"

subsection \<open>\<open>get_user_movies\<close>\<close>

text \<open>
  The loop of the route, movie by movie: the gateway's answer, then the record
  \<open>{**movie.to_dict(), **movie_details}\<close>, which raises when the answer is no
  dictionary; an exception ends the loop and no record is kept.
\<close>

fun movies_with_details :: "net \<Rightarrow> movie list \<Rightarrow> exn + dict list" where
  "movies_with_details nw [] = Inr []"
| "movies_with_details nw (m # ms) =
     (case fetch_movie_details (nw (title m)) of
        Inl e \<Rightarrow> Inl e
      | Inr movie_details \<Rightarrow>
          (case dict_unpack (to_dict m) movie_details of
             Inl e \<Rightarrow> Inl e
           | Inr combined_movie_data \<Rightarrow>
               (case movies_with_details nw ms of
                  Inl e \<Rightarrow> Inl e
                | Inr rest \<Rightarrow> Inr (combined_movie_data # rest))))"

definition get_user_movies :: "net \<Rightarrow> int \<Rightarrow> db \<Rightarrow> response" where
  "get_user_movies nw user_id s =
     (case User_query_get user_id s of
        None \<Rightarrow> Render_error ''User not found.''
      | Some u \<Rightarrow>
          (case movies_with_details nw (user_movies u s) of
             Inl e \<Rightarrow> Render_error ''An error occurred while retrieving user movies''
           | Inr ds \<Rightarrow> Render_movies ds user_id))"

subsection \<open>The states the routes reach\<close>

datatype request =
    Add_user http_method form
  | Delete_user http_method int
  | Add_movie http_method int form
  | Update_movie http_method int string form
  | Delete_movie http_method int form
  | Add_review http_method int string form
  | Add_user_movie int dict

fun handle :: "net \<Rightarrow> request \<Rightarrow> db \<Rightarrow> response \<times> db" where
  "handle nw (Add_user method f) s = add_user method f s"
| "handle nw (Delete_user method user_id) s = delete_user method user_id s"
| "handle nw (Add_movie method user_id f) s = add_movie nw method user_id f s"
| "handle nw (Update_movie method user_id movie_id f) s =
     update_movie nw method user_id movie_id f s"
| "handle nw (Delete_movie method user_id args) s = delete_movie method user_id args s"
| "handle nw (Add_review method user_id movie_id f) s =
     add_review method user_id movie_id f s"
| "handle nw (Add_user_movie user_id data) s = add_user_movie user_id data s"

text \<open>
  The store starts empty and changes by requests; the routes \<open>update_review\<close> and
  \<open>delete_review\<close> write the review table only, which the last rule covers by letting
  that table change at will.
\<close>

inductive reachable :: "db \<Rightarrow> bool" where
  init: "reachable empty_db"
| step: "reachable s \<Longrightarrow> reachable (snd (handle nw req s))"
| review_change: "reachable s \<Longrightarrow> reachable (s\<lparr>reviews := rs\<rparr>)"

definition unique_imdbid :: "db \<Rightarrow> bool" where
  "unique_imdbid s = distinct (filter (\<lambda>v. v \<noteq> PNone) (map imdbid (movies s)))"

section \<open>\<open>Movie.update_movie\<close> (data_models.py)\<close>

text \<open>
  The class method takes \<open>movie_id\<close>, looks the movie up by it as its primary key, and
  then calls \<open>movie_id.get\<close> for each field; \<open>user_id\<close> is not read. The primary key is
  an integer.
\<close>

definition Movie_update_movie :: "int \<Rightarrow> pyval \<Rightarrow> db \<Rightarrow> exn + bool \<times> db" where
  "Movie_update_movie movie_id user_id s =
     (case Movie_query_get movie_id s of
        None \<Rightarrow> Inr (False, s)
      | Some m \<Rightarrow>
     (case py_get (PInt movie_id) ''title'' (title m) of
        Inl msg \<Rightarrow> Inl (AttributeError msg) | Inr new_title \<Rightarrow>
     (case py_get (PInt movie_id) ''year'' (year m) of
        Inl msg \<Rightarrow> Inl (AttributeError msg) | Inr new_year \<Rightarrow>
     (case py_get (PInt movie_id) ''genre'' (genre m) of
        Inl msg \<Rightarrow> Inl (AttributeError msg) | Inr new_genre \<Rightarrow>
     (case py_get (PInt movie_id) ''rating'' (rating m) of
        Inl msg \<Rightarrow> Inl (AttributeError msg) | Inr new_rating \<Rightarrow>
     (case py_get (PInt movie_id) ''director'' (director m) of
        Inl msg \<Rightarrow> Inl (AttributeError msg) | Inr new_director \<Rightarrow>
     (case py_get (PInt movie_id) ''imdbid'' (imdbid m) of
        Inl msg \<Rightarrow> Inl (AttributeError msg) | Inr new_imdbid \<Rightarrow>
     (case session_update_movie
             (m\<lparr>title := new_title, year := new_year, genre := new_genre,
                rating := new_rating, director := new_director, imdbid := new_imdbid\<rparr>) s of
        Inl e \<Rightarrow> Inl e
      | Inr s' \<Rightarrow> Inr (True, s')))))))))"

section \<open>The flat-file backend (datamanager/json\_data\_manager.py)\<close>

text \<open>
  An instance of \<open>JSONDataManager\<close> with the file it names: the document the file
  holds (\<open>None\<close> when there is no file) and the attribute \<open>data\<close>.
\<close>

record jdm =
  file_content :: "pyval option"
  data :: pyval

text \<open>
  The names the class body and \<open>__init__\<close> define. The names an instance inherits from
  \<open>object\<close> all begin and end with two underscores and are not listed.
\<close>

definition JSONDataManager_attributes :: "string list" where
  "JSONDataManager_attributes =
     [''__init__'', ''filename'', ''data'', ''load_data'', ''save_data'', ''get_all_users'',
      ''get_user_movies'', ''user_counter'', ''add_user'', ''delete_user'',
      ''add_movie_to_user'', ''delete_movie'', ''update_movie'']"

text \<open>An exception raised in the body of \<open>update_movie\<close>: its class and its \<open>str\<close>.\<close>

datatype body_exn = Body_exn string string

definition exn_str :: "body_exn \<Rightarrow> string" where
  "exn_str e = (case e of Body_exn cls msg \<Rightarrow> msg)"

text \<open>\<open>self.name\<close>\<close>

definition getattr_self :: "string \<Rightarrow> body_exn + string" where
  "getattr_self name =
     (if name \<in> set JSONDataManager_attributes then Inr name
      else Inl (Body_exn ''AttributeError'' (no_attribute ''JSONDataManager'' name)))"

text \<open>
  Calling an attribute of the instance is a parameter of the model,
  \<open>invoke name arguments self\<close>: it returns a value or raises, and leaves the instance
  and its file in some state. The value a call returns is taken as an object of its own.
\<close>

type_synonym invoke = "string \<Rightarrow> pyval list \<Rightarrow> jdm \<Rightarrow> (body_exn + pyval) \<times> jdm"

text \<open>\<open>for x in v\<close>: the elements of a list, the keys of a dictionary, the characters of
  a string; nothing else the decoder produces can be iterated.\<close>

definition py_iter :: "pyval \<Rightarrow> body_exn + pyval list" where
  "py_iter v =
     (case v of
        PList vs \<Rightarrow> Inr vs
      | PDict d \<Rightarrow> Inr (map (\<lambda>kv. PStr (fst kv)) d)
      | PStr s \<Rightarrow> Inr (map (\<lambda>c. PStr [c]) s)
      | _ \<Rightarrow> Inl (Body_exn ''TypeError''
                 ([CHR 0x27] @ type_name v @ [CHR 0x27] @ '' object is not iterable'')))"

definition get_or_raise :: "pyval \<Rightarrow> string \<Rightarrow> body_exn + pyval" where
  "get_or_raise v k =
     (case py_get v k PNone of
        Inl msg \<Rightarrow> Inl (Body_exn ''AttributeError'' msg)
      | Inr x \<Rightarrow> Inr x)"

text \<open>
  The inner loop: the first movie whose \<open>id\<close> is \<open>movie_id\<close> gets the new title and
  rating, and the loop ends there. A movie that passed \<open>movie.get\<close> is a dictionary.
\<close>

fun update_movies :: "pyval list \<Rightarrow> string \<Rightarrow> string \<Rightarrow> string \<Rightarrow> body_exn + pyval list" where
  "update_movies [] movie_id new_title new_rating = Inr []"
| "update_movies (m # ms) movie_id new_title new_rating =
     (case get_or_raise m ''id'' of
        Inl e \<Rightarrow> Inl e
      | Inr i \<Rightarrow>
          if i = PStr movie_id then
            (case m of
               PDict d \<Rightarrow>
                 Inr (PDict (dict_set (dict_set d ''Title'' (PStr new_title))
                                      ''Rating'' (PStr new_rating)) # ms)
             | _ \<Rightarrow> Inr (m # ms))
          else
            (case update_movies ms movie_id new_title new_rating of
               Inl e \<Rightarrow> Inl e
             | Inr ms' \<Rightarrow> Inr (m # ms')))"

text \<open>
  What the inner loop leaves in \<open>user\<close>: the movies of a list are changed in place, so
  the user holds the changed list; the keys of a dictionary and the characters of a
  string have no \<open>get\<close>.
\<close>

definition update_user :: "pyval \<Rightarrow> string \<Rightarrow> string \<Rightarrow> string \<Rightarrow> body_exn + pyval" where
  "update_user u movie_id new_title new_rating =
     (case get_or_raise u ''movies'' of
        Inl e \<Rightarrow> Inl e
      | Inr ms \<Rightarrow>
          if truthy ms then
            (case py_iter ms of
               Inl e \<Rightarrow> Inl e
             | Inr elems \<Rightarrow>
                 (case update_movies elems movie_id new_title new_rating of
                    Inl e \<Rightarrow> Inl e
                  | Inr elems' \<Rightarrow>
                      (case (u, ms) of
                         (PDict d, PList _) \<Rightarrow> Inr (PDict (dict_set d ''movies'' (PList elems')))
                       | _ \<Rightarrow> Inr u)))
          else Inr u)"

text \<open>The outer loop: it ends at the first user whose \<open>id\<close> is \<open>user_id\<close>.\<close>

fun update_users ::
  "pyval list \<Rightarrow> string \<Rightarrow> string \<Rightarrow> string \<Rightarrow> string \<Rightarrow> body_exn + pyval list" where
  "update_users [] user_id movie_id new_title new_rating = Inr []"
| "update_users (u # us) user_id movie_id new_title new_rating =
     (case get_or_raise u ''id'' of
        Inl e \<Rightarrow> Inl e
      | Inr i \<Rightarrow>
          if i = PStr user_id then
            (case update_user u movie_id new_title new_rating of
               Inl e \<Rightarrow> Inl e
             | Inr u' \<Rightarrow> Inr (u' # us))
          else
            (case update_users us user_id movie_id new_title new_rating of
               Inl e \<Rightarrow> Inl e
             | Inr us' \<Rightarrow> Inr (u # us')))"

text \<open>The statements between the two calls, on the value \<open>data\<close>.\<close>

definition update_data ::
  "pyval \<Rightarrow> string \<Rightarrow> string \<Rightarrow> string \<Rightarrow> string \<Rightarrow> body_exn + pyval" where
  "update_data dat user_id movie_id new_title new_rating =
     (case get_or_raise dat ''users'' of
        Inl e \<Rightarrow> Inl e
      | Inr us \<Rightarrow>
          if truthy us then
            (case py_iter us of
               Inl e \<Rightarrow> Inl e
             | Inr elems \<Rightarrow>
                 (case update_users elems user_id movie_id new_title new_rating of
                    Inl e \<Rightarrow> Inl e
                  | Inr elems' \<Rightarrow>
                      (case (dat, us) of
                         (PDict d, PList _) \<Rightarrow> Inr (PDict (dict_set d ''users'' (PList elems')))
                       | _ \<Rightarrow> Inr dat)))
          else Inr dat)"

text \<open>The body of the \<open>try\<close> block of \<open>JSONDataManager.update_movie\<close>.\<close>

definition update_movie_body ::
  "invoke \<Rightarrow> jdm \<Rightarrow> string \<Rightarrow> string \<Rightarrow> string \<Rightarrow> string \<Rightarrow> (body_exn + unit) \<times> jdm" where
  "update_movie_body call self user_id movie_id new_title new_rating =
     (case getattr_self ''_load_data'' of
        Inl e \<Rightarrow> (Inl e, self)
      | Inr load \<Rightarrow>
     (case call load [] self of
        (Inl e, self1) \<Rightarrow> (Inl e, self1)
      | (Inr dat, self1) \<Rightarrow>
     (case update_data dat user_id movie_id new_title new_rating of
        Inl e \<Rightarrow> (Inl e, self1)
      | Inr dat' \<Rightarrow>
     (case getattr_self ''_save_data'' of
        Inl e \<Rightarrow> (Inl e, self1)
      | Inr save \<Rightarrow>
     (case call save [dat'] self1 of
        (Inl e, self2) \<Rightarrow> (Inl e, self2)
      | (Inr _, self2) \<Rightarrow> (Inr (), self2))))))"

text \<open>
  \<open>except Exception as e: raise Exception("An error occurred while updating the
  movie:", str(e))\<close>: the result is the argument tuple of the raised exception, or
  nothing when the method returns.
\<close>

definition JSONDataManager_update_movie ::
  "invoke \<Rightarrow> jdm \<Rightarrow> string \<Rightarrow> string \<Rightarrow> string \<Rightarrow> string \<Rightarrow> (string list + unit) \<times> jdm" where
  "JSONDataManager_update_movie call self user_id movie_id new_title new_rating =
     (case update_movie_body call self user_id movie_id new_title new_rating of
        (Inl e, self') \<Rightarrow> (Inl [''An error occurred while updating the movie:'', exn_str e], self')
      | (Inr _, self') \<Rightarrow> (Inr (), self'))"

section \<open>A scenario\<close>

text \<open>
  The data of the running example: the gateway's answer for one film, a gateway that
  answers every title with it, one that cannot be reached, and the store after a user,
  a movie and a review were added through the routes.
\<close>

abbreviation inception_details :: dict where
  "inception_details \<equiv>
     [(''Title'', PStr ''Inception''), (''Year'', PStr ''2010''), (''Genre'', PStr ''Sci-Fi''),
      (''Director'', PStr ''Christopher Nolan''), (''imdbID'', PStr ''tt1375666'')]"

abbreviation omdb :: net where
  "omdb \<equiv> (\<lambda>t. Response 200 (JsonBody (PDict inception_details)))"

abbreviation no_service :: net where
  "no_service \<equiv> (\<lambda>t. GetRaises ConnectionError)"

abbreviation alice_form :: form where
  "alice_form \<equiv> [(''username'', ''alice'')]"

abbreviation movie_form :: form where
  "movie_form \<equiv> [(''movie_title'', ''inception''), (''movie_rating'', ''9'')]"

abbreviation review_form :: form where
  "review_form \<equiv> [(''review_text'', ''great''), (''rating'', ''5'')]"

abbreviation alice :: user where
  "alice \<equiv> \<lparr>u_id = 1, username = ''alice''\<rparr>"

abbreviation alice_movie :: movie where
  "alice_movie \<equiv>
     \<lparr>m_id = 1, title = PStr ''inception'', year = PStr ''2010'', genre = PStr ''Sci-Fi'',
      rating = PStr ''9'', director = PStr ''Christopher Nolan'', m_user_id = 1,
      imdbid = PStr ''tt1375666''\<rparr>"

abbreviation alice_review :: review where
  "alice_review \<equiv>
     \<lparr>r_id = 1, r_user_id = 1, r_movie_id = PStr ''tt1375666'', review_text = PStr ''great'',
      r_rating = PStr ''5''\<rparr>"

abbreviation db1 :: db where
  "db1 \<equiv> \<lparr>users = [alice], movies = [], reviews = []\<rparr>"

abbreviation db2 :: db where
  "db2 \<equiv> \<lparr>users = [alice], movies = [alice_movie], reviews = []\<rparr>"

abbreviation db3 :: db where
  "db3 \<equiv> \<lparr>users = [alice], movies = [alice_movie], reviews = [alice_review]\<rparr>"

text \<open>A stored drama for which the gateway reports a comedy.\<close>

abbreviation drama_movie :: movie where
  "drama_movie \<equiv>
     \<lparr>m_id = 1, title = PStr ''Heat'', year = PStr ''1995'', genre = PStr ''Drama'',
      rating = PStr ''8'', director = PStr ''Michael Mann'', m_user_id = 1,
      imdbid = PStr ''tt0113277''\<rparr>"

abbreviation comedy_details :: dict where
  "comedy_details \<equiv> [(''Genre'', PStr ''Comedy''), (''Plot'', PStr ''A heist'')]"

abbreviation comedy_gateway :: net where
  "comedy_gateway \<equiv> (\<lambda>t. Response 200 (JsonBody (PDict comedy_details)))"

abbreviation drama_db :: db where
  "drama_db \<equiv> \<lparr>users = [alice], movies = [drama_movie], reviews = []\<rparr>"

text \<open>A gateway whose answer is a JSON document that is no object.\<close>

abbreviation list_gateway :: net where
  "list_gateway \<equiv> (\<lambda>t. Response 200 (JsonBody (PList [PInt 1, PInt 2])))"

text \<open>
  A second film of the same user, and a gateway that knows both films by the title
  asked for.
\<close>

abbreviation heat_details :: dict where
  "heat_details \<equiv>
     [(''Title'', PStr ''Heat''), (''Year'', PStr ''1995''), (''Genre'', PStr ''Crime''),
      (''Director'', PStr ''Michael Mann''), (''imdbID'', PStr ''tt0113277'')]"

abbreviation catalogue :: net where
  "catalogue \<equiv>
     (\<lambda>t. if t = PStr ''heat'' then Response 200 (JsonBody (PDict heat_details))
          else Response 200 (JsonBody (PDict inception_details)))"

abbreviation heat_form :: form where
  "heat_form \<equiv> [(''movie_title'', ''heat''), (''movie_rating'', ''8'')]"

abbreviation heat_movie :: movie where
  "heat_movie \<equiv>
     \<lparr>m_id = 2, title = PStr ''heat'', year = PStr ''1995'', genre = PStr ''Crime'',
      rating = PStr ''8'', director = PStr ''Michael Mann'', m_user_id = 1,
      imdbid = PStr ''tt0113277''\<rparr>"

abbreviation two_films :: db where
  "two_films \<equiv> \<lparr>users = [alice], movies = [alice_movie, heat_movie], reviews = []\<rparr>"

section \<open>Properties\<close>

lemma map_of_dict_set: "map_of (dict_set d k v) = (map_of d)(k \<mapsto> v)"
  by (induction d) auto

lemma map_of_dict_merge: "map_of (dict_merge a b) = map_of a ++ map_of (rev b)"
  unfolding dict_merge_def
  by (induction b arbitrary: a) (simp_all add: map_of_dict_set map_add_upd_left)

text \<open>
  C6. \<open>fetch_movie_details\<close> never raises: for every outcome of the HTTP request it
  returns a value. When \<open>requests.get\<close> raises a transport error (a timeout included),
  when the status is not 200, and when the body of a 200 response is malformed and
  does not decode, the value is the empty dictionary. A 200 response whose body decodes
  is answered with the decoded document as it is, whatever its shape.
\<close>

theorem fetch_movie_details_never_raises:
  "(\<exists>v. fetch_movie_details out = Inr v) \<and>
   fetch_movie_details (GetRaises e) = Inr (PDict []) \<and>
   (status_code \<noteq> 200 \<longrightarrow> fetch_movie_details (Response status_code body) = Inr (PDict [])) \<and>
   fetch_movie_details (Response status_code Malformed) = Inr (PDict []) \<and>
   fetch_movie_details (Response 200 (JsonBody v0)) = Inr v0"
  by (auto simp: fetch_movie_details_def fetch_try_def raise_for_status_def response_json_def
           split: http_outcome.splits http_body.splits sum.splits exn.splits)

theorem fetch_movie_details_never_raises_witness:
  "(503::int) \<noteq> 200 \<and>
   fetch_movie_details (Response 503 (JsonBody (PDict [(''Title'', PStr ''Up'')]))) = Inr (PDict []) \<and>
   fetch_movie_details (GetRaises Timeout) = Inr (PDict []) \<and>
   fetch_movie_details (Response 200 Malformed) = Inr (PDict []) \<and>
   fetch_movie_details (Response 200 (JsonBody (PList [PInt 1, PInt 2]))) = Inr (PList [PInt 1, PInt 2])"
  using fetch_movie_details_never_raises
    [of "Response 503 (JsonBody (PDict [(''Title'', PStr ''Up'')]))" Timeout 503
        "JsonBody (PDict [(''Title'', PStr ''Up'')])" "PList [PInt 1, PInt 2]"]
    fetch_movie_details_never_raises [of "GetRaises Timeout" Timeout 200 Malformed PNone]
  by simp

subsection \<open>Fresh ids\<close>

lemma fold_max_ge: "(a::int) \<le> fold max ids a"
  by (induction ids arbitrary: a) (auto intro: order_trans [OF max.cobounded2])

lemma fold_max_mem: "(x::int) \<in> set ids \<Longrightarrow> x \<le> fold max ids a"
proof (induction ids arbitrary: a)
  case Nil
  then show ?case by simp
next
  case (Cons y ys)
  then show ?case
    using fold_max_ge [of "max y a" ys] by auto
qed

lemma next_id_fresh: "next_id ids \<notin> set ids"
  using fold_max_mem [of "next_id ids" ids 0] by (auto simp: next_id_def)

lemma find_append_new:
  "\<forall>x\<in>set xs. \<not> P x \<Longrightarrow> P y \<Longrightarrow> find P (xs @ [y]) = Some y"
  by (induction xs) auto

subsection \<open>Creating a user\<close>

text \<open>
  C8, as the code has it. \<open>add_user\<close> does not look at the username it reads from the
  form: for every username, the empty string included, it stores a new user under an id
  no user of the store has, and the user is found under that id in the store the call
  returns. It fails only when the form has no field \<open>username\<close>.
\<close>

theorem add_user_accepts_any_username:
  assumes "map_of f ''username'' = Some name"
  shows "add_user POST f s =
           (Redirect ''list_users'' None,
            s\<lparr>users := users s @ [\<lparr>u_id = next_id (map u_id (users s)), username = name\<rparr>]\<rparr>) \<and>
         next_id (map u_id (users s)) \<notin> set (map u_id (users s)) \<and>
         User_query_get (next_id (map u_id (users s))) (snd (add_user POST f s)) =
           Some \<lparr>u_id = next_id (map u_id (users s)), username = name\<rparr>"
proof -
  have fresh: "next_id (map u_id (users s)) \<notin> set (map u_id (users s))"
    by (rule next_id_fresh)
  have res: "add_user POST f s =
           (Redirect ''list_users'' None,
            s\<lparr>users := users s @ [\<lparr>u_id = next_id (map u_id (users s)), username = name\<rparr>]\<rparr>)"
    using assms by (simp add: add_user_def form_get_def User_add_user_def)
  have "\<forall>x\<in>set (users s). \<not> (u_id x = next_id (map u_id (users s)))"
    using fresh by (auto simp: image_iff)
  then have "User_query_get (next_id (map u_id (users s))) (snd (add_user POST f s)) =
           Some \<lparr>u_id = next_id (map u_id (users s)), username = name\<rparr>"
    unfolding res User_query_get_def by (simp add: find_append_new)
  with fresh res show ?thesis by blast
qed

theorem add_user_accepts_any_username_witness:
  "map_of [(''username'', ''alice'')] ''username'' = Some ''alice'' \<and>
   add_user POST [(''username'', ''alice'')] empty_db =
     (Redirect ''list_users'' None,
      \<lparr>users = [\<lparr>u_id = 1, username = ''alice''\<rparr>], movies = [], reviews = []\<rparr>)"
  using add_user_accepts_any_username [of "[(''username'', ''alice'')]" "''alice''" empty_db]
  by (simp add: empty_db_def next_id_def)

text \<open>
  The claim C8 as stated fails: with the empty username the call does not fail, it
  stores a user whose name is the empty string.
\<close>

theorem add_user_empty_username_counterexample:
  "add_user POST [(''username'', [])] empty_db =
     (Redirect ''list_users'' None,
      \<lparr>users = [\<lparr>u_id = 1, username = []\<rparr>], movies = [], reviews = []\<rparr>)"
  by (simp add: add_user_def form_get_def User_add_user_def empty_db_def next_id_def)

subsection \<open>The class method \<open>Movie.update_movie\<close>\<close>

text \<open>
  C9 against the code. \<open>Movie.update_movie\<close> never changes a field: when no movie has
  the id it returns \<open>False\<close> and the store as it was, and when the movie exists the
  first \<open>movie_id.get\<close> raises AttributeError, since the id is an integer; this for every
  second argument, which the method does not read.
\<close>

theorem Movie_update_movie_never_updates:
  "Movie_update_movie movie_id flds s =
     (case Movie_query_get movie_id s of
        None \<Rightarrow> Inr (False, s)
      | Some m \<Rightarrow> Inl (AttributeError (no_attribute ''int'' ''get''))) \<and>
   Movie_update_movie 1 (PDict [(''title'', PStr ''New'')]) db2 =
     Inl (AttributeError (no_attribute ''int'' ''get'')) \<and>
   Movie_update_movie 2 (PDict [(''title'', PStr ''New'')]) db2 = Inr (False, db2)"
  by (simp add: Movie_update_movie_def Movie_query_get_def py_get_def split: option.splits)

subsection \<open>The flat-file backend\<close>

text \<open>
  C10. \<open>JSONDataManager.update_movie\<close> raises for every input, whatever the methods of
  the class do when called: the lookup of \<open>self._load_data\<close> fails, the handler raises
  \<open>Exception\<close> with the fixed message and the text of the AttributeError, and the
  instance and its file are as before the call. The class defines \<open>load_data\<close> and
  \<open>save_data\<close>, and neither \<open>_load_data\<close> nor \<open>_save_data\<close>.
\<close>

theorem JSONDataManager_update_movie_always_raises:
  "JSONDataManager_update_movie call self user_id movie_id new_title new_rating =
     (Inl [''An error occurred while updating the movie:'',
           no_attribute ''JSONDataManager'' ''_load_data''], self) \<and>
   getattr_self ''_load_data'' =
     Inl (Body_exn ''AttributeError'' (no_attribute ''JSONDataManager'' ''_load_data'')) \<and>
   getattr_self ''_save_data'' =
     Inl (Body_exn ''AttributeError'' (no_attribute ''JSONDataManager'' ''_save_data'')) \<and>
   getattr_self ''load_data'' = Inr ''load_data'' \<and>
   getattr_self ''save_data'' = Inr ''save_data''"
  by (simp add: JSONDataManager_update_movie_def update_movie_body_def getattr_self_def
        JSONDataManager_attributes_def exn_str_def)

subsection \<open>The scenario, step by step\<close>

lemma dict_get_Some: "map_of d k = Some v \<Longrightarrow> dict_get d k dflt = v"
  by (simp add: dict_get_def)

lemma fetch_returns: "\<exists>v. fetch_movie_details out = Inr v"
  by (auto simp: fetch_movie_details_def fetch_try_def raise_for_status_def response_json_def
           split: http_outcome.splits http_body.splits sum.splits exn.splits)

lemma fetch_omdb: "fetch_movie_details (omdb t) = Inr (PDict inception_details)"
  by (simp add: fetch_movie_details_def fetch_try_def raise_for_status_def response_json_def)

lemma fetch_no_service: "fetch_movie_details (no_service t) = Inr (PDict [])"
  by (simp add: fetch_movie_details_def fetch_try_def)

lemma fetch_comedy: "fetch_movie_details (comedy_gateway t) = Inr (PDict comedy_details)"
  by (simp add: fetch_movie_details_def fetch_try_def raise_for_status_def response_json_def)

lemma step1: "snd (handle omdb (Add_user POST alice_form) empty_db) = db1"
  by (simp add: add_user_def form_get_def User_add_user_def empty_db_def next_id_def)

lemma step2: "snd (handle omdb (Add_movie POST 1 movie_form) db1) = db2"
  by (simp add: add_movie_def add_movie_try_def form_get_def fetch_omdb details_get_def
        py_get_def dict_get_def session_add_movie_def check_movie_row_def next_id_def)

lemma step3: "snd (handle omdb (Add_review POST 1 ''tt1375666'' review_form) db2) = db3"
  by (simp add: add_review_def form_get_def User_query_get_def movie_by_imdbid_def next_id_def)

lemma reachable_db1: "reachable db1"
  using reachable.step [OF reachable.init, of omdb "Add_user POST alice_form"]
  by (simp only: step1)

lemma reachable_db2: "reachable db2"
  using reachable.step [OF reachable_db1, of omdb "Add_movie POST 1 movie_form"]
  by (simp only: step2)

lemma reachable_db3: "reachable db3"
  using reachable.step [OF reachable_db2, of omdb "Add_review POST 1 ''tt1375666'' review_form"]
  by (simp only: step3)

lemma delete_user_db3:
  "delete_user POST 1 db3 =
     (Redirect ''list_users'' None, \<lparr>users = [], movies = [], reviews = [alice_review]\<rparr>)"
  by (simp add: delete_user_def User_query_get_def user_movies_def session_delete_user_def
        session_delete_movies_def review_of_def)

subsection \<open>Creating a movie with the gateway's details\<close>

text \<open>
  C5. When the gateway's answer for the title is the empty dictionary, \<open>add_movie\<close>
  returns the error page with the message \<open>Movie details not found.\<close> (the form the
  enrichment error takes in the code) and the store it was given: no movie is created,
  and the owner has as many movies as before.
\<close>

theorem add_movie_gateway_empty:
  assumes "map_of f ''movie_title'' = Some movie_title"
      and "map_of f ''movie_rating'' = Some movie_rating"
      and "fetch_movie_details (nw (PStr movie_title)) = Inr (PDict [])"
  shows "add_movie nw POST user_id f s = (Render_error ''Movie details not found.'', s) \<and>
         length (filter (\<lambda>m. m_user_id m = user_id)
                   (movies (snd (add_movie nw POST user_id f s)))) =
         length (filter (\<lambda>m. m_user_id m = user_id) (movies s))"
  using assms by (simp add: add_movie_def add_movie_try_def form_get_def)

theorem add_movie_gateway_empty_witness:
  "map_of movie_form ''movie_title'' = Some ''inception'' \<and>
   fetch_movie_details (no_service (PStr ''inception'')) = Inr (PDict []) \<and>
   add_movie no_service POST 1 movie_form db1 = (Render_error ''Movie details not found.'', db1)"
  using add_movie_gateway_empty
    [where f = movie_form and movie_title = "''inception''" and movie_rating = "''9''"
       and nw = no_service and user_id = 1 and s = db1]
  by (simp add: fetch_no_service)

text \<open>
  C3. When the form carries a title and a rating, the gateway's answer for the title is
  an object with \<open>Year\<close>, \<open>Genre\<close>, \<open>Director\<close> and \<open>imdbID\<close>, and no movie of the store has that
  imdb id yet (the input is valid for the store), \<open>add_movie\<close> persists exactly one new
  movie: its title is the title of the form, whatever \<open>Title\<close> the gateway gave, its
  year, genre, director and imdb id are the gateway's, its rating is the rating of the
  form, and its owner is the user of the URL.
\<close>

theorem add_movie_keeps_input_title:
  assumes "map_of f ''movie_title'' = Some movie_title"
      and "map_of f ''movie_rating'' = Some movie_rating"
      and "fetch_movie_details (nw (PStr movie_title)) = Inr (PDict d)"
      and "map_of d ''Year'' = Some (PStr y)"
      and "map_of d ''Genre'' = Some (PStr g)"
      and "map_of d ''Director'' = Some (PStr dir)"
      and "map_of d ''imdbID'' = Some (PStr i)"
      and "PStr i \<notin> set (map imdbid (movies s))"
  shows "add_movie nw POST user_id f s =
           (Redirect ''get_user_movies'' (Some user_id),
            s\<lparr>movies := movies s @
                 [\<lparr>m_id = next_id (map m_id (movies s)), title = PStr movie_title,
                   year = PStr y, genre = PStr g, rating = PStr movie_rating,
                   director = PStr dir, m_user_id = user_id, imdbid = PStr i\<rparr>]\<rparr>)"
proof -
  have "d \<noteq> []" using assms(4) by auto
  then show ?thesis
    using assms
    by (simp add: add_movie_def add_movie_try_def form_get_def details_get_def py_get_def
          dict_get_Some session_add_movie_def check_movie_row_def)
qed

theorem add_movie_keeps_input_title_witness:
  "map_of inception_details ''Title'' = Some (PStr ''Inception'') \<and>
   PStr ''tt1375666'' \<notin> set (map imdbid (movies db1)) \<and>
   add_movie omdb POST 1 movie_form db1 = (Redirect ''get_user_movies'' (Some 1), db2) \<and>
   title alice_movie = PStr ''inception''"
  using add_movie_keeps_input_title
    [where f = movie_form and movie_title = "''inception''" and movie_rating = "''9''"
       and nw = omdb and d = inception_details and y = "''2010''" and g = "''Sci-Fi''"
       and dir = "''Christopher Nolan''" and i = "''tt1375666''" and s = db1 and user_id = 1]
  by (simp add: fetch_omdb next_id_def)

subsection \<open>Updating a movie with the gateway's details\<close>

lemma fetch_200: "fetch_movie_details (Response 200 (JsonBody v)) = Inr v"
  by (simp add: fetch_movie_details_def fetch_try_def raise_for_status_def response_json_def)

lemma fetch_catalogue_inception:
  "fetch_movie_details (catalogue (PStr ''inception'')) = Inr (PDict inception_details)"
  by (simp add: fetch_movie_details_def fetch_try_def raise_for_status_def response_json_def)

lemma fetch_catalogue_heat:
  "fetch_movie_details (catalogue (PStr ''heat'')) = Inr (PDict heat_details)"
  by (simp add: fetch_movie_details_def fetch_try_def raise_for_status_def response_json_def)

lemma step_heat: "snd (handle catalogue (Add_movie POST 1 heat_form) db2) = two_films"
  by (simp add: add_movie_def add_movie_try_def form_get_def fetch_200
        details_get_def py_get_def dict_get_def session_add_movie_def check_movie_row_def
        next_id_def)

lemma reachable_two_films: "reachable two_films"
  using reachable.step [OF reachable_db2, of catalogue "Add_movie POST 1 heat_form"]
  by (simp only: step_heat)

lemma update_heat_to_inception:
  "update_movie catalogue POST 1 ''tt0113277''
     [(''new_title'', ''inception''), (''new_rating'', ''7'')] two_films =
   (Render_error ''An error occurred while updating a movie'', two_films)"
  by (simp add: update_movie_def update_movie_try_def form_get_def movie_by_imdbid_def
        fetch_200 details_get_def py_get_def dict_get_def
        session_update_movie_def check_movie_row_def)

text \<open>
  C4, as the code has it. \<open>update_movie\<close> finds its movie by the imdb id of the URL.
  When the form carries the new title and rating and the gateway's answer for the new
  title has \<open>Title\<close>, \<open>Year\<close>, \<open>Genre\<close>, \<open>Director\<close> and \<open>imdbID\<close>, there are two
  cases. If no other movie has that imdb id, the row of the movie is replaced by the
  movie with the gateway's title, year, genre, director and imdb id and the rating of
  the form, and the other rows stay. If another movie has it, the commit is refused by
  the unique constraint, the answer is the error page, and the store is what it was:
  nothing is overwritten.
\<close>

theorem update_movie_takes_gateway_fields:
  assumes "map_of f ''new_title'' = Some new_title"
      and "map_of f ''new_rating'' = Some new_rating"
      and "movie_by_imdbid movie_id s = Some m"
      and "fetch_movie_details (nw (PStr new_title)) = Inr (PDict d)"
      and "map_of d ''Title'' = Some (PStr t)"
      and "map_of d ''Year'' = Some (PStr y)"
      and "map_of d ''Genre'' = Some (PStr g)"
      and "map_of d ''Director'' = Some (PStr dir)"
      and "map_of d ''imdbID'' = Some (PStr i)"
  shows "imdbid m = PStr movie_id \<and> m \<in> set (movies s) \<and>
         update_movie nw POST user_id movie_id f s =
           (if PStr i \<in> set (map imdbid (filter (\<lambda>x. m_id x \<noteq> m_id m) (movies s)))
            then (Render_error ''An error occurred while updating a movie'', s)
            else
              (Redirect ''get_user_movies'' (Some user_id),
               s\<lparr>movies := map (\<lambda>x. if m_id x = m_id m
                                    then m\<lparr>title := PStr t, year := PStr y, genre := PStr g,
                                           director := PStr dir, imdbid := PStr i,
                                           rating := PStr new_rating\<rparr>
                                    else x) (movies s)\<rparr>))"
proof -
  have "d \<noteq> []" using assms(5) by auto
  have found: "imdbid m = PStr movie_id \<and> m \<in> set (movies s)"
    using assms(3) by (auto simp: movie_by_imdbid_def find_Some_iff)
  have "update_movie nw POST user_id movie_id f s =
           (if PStr i \<in> set (map imdbid (filter (\<lambda>x. m_id x \<noteq> m_id m) (movies s)))
            then (Render_error ''An error occurred while updating a movie'', s)
            else
              (Redirect ''get_user_movies'' (Some user_id),
               s\<lparr>movies := map (\<lambda>x. if m_id x = m_id m
                                    then m\<lparr>title := PStr t, year := PStr y, genre := PStr g,
                                           director := PStr dir, imdbid := PStr i,
                                           rating := PStr new_rating\<rparr>
                                    else x) (movies s)\<rparr>))"
    using assms \<open>d \<noteq> []\<close>
    by (simp add: update_movie_def update_movie_try_def form_get_def details_get_def
          py_get_def dict_get_Some session_update_movie_def check_movie_row_def)
  with found show ?thesis by simp
qed

theorem update_movie_takes_gateway_fields_witness:
  "movie_by_imdbid ''tt1375666'' db2 = Some alice_movie \<and>
   update_movie omdb POST 1 ''tt1375666'' [(''new_title'', ''inception''), (''new_rating'', ''10'')] db2 =
     (Redirect ''get_user_movies'' (Some 1),
      \<lparr>users = [alice],
       movies = [alice_movie\<lparr>title := PStr ''Inception'', rating := PStr ''10''\<rparr>],
       reviews = []\<rparr>)"
  using update_movie_takes_gateway_fields
    [where f = "[(''new_title'', ''inception''), (''new_rating'', ''10'')]"
       and new_title = "''inception''" and new_rating = "''10''" and movie_id = "''tt1375666''"
       and s = db2 and m = alice_movie and nw = omdb and d = inception_details
       and t = "''Inception''" and y = "''2010''" and g = "''Sci-Fi''"
       and dir = "''Christopher Nolan''" and i = "''tt1375666''" and user_id = 1]
  by (simp add: fetch_omdb movie_by_imdbid_def)

text \<open>
  The claim C4 as stated fails. The store holds two movies of one user, both added
  through \<open>add_movie\<close>. Updating the second under the title of the first finds the movie
  by its imdb id and gets a populated answer from the gateway, but the answer's imdb id
  is the first movie's: the answer is the error page and the movie keeps its title,
  year, genre, director, imdb id and rating.
\<close>

theorem update_movie_collision_counterexample:
  "reachable two_films \<and>
   movie_by_imdbid ''tt0113277'' two_films = Some heat_movie \<and>
   fetch_movie_details (catalogue (PStr ''inception'')) = Inr (PDict inception_details) \<and>
   update_movie catalogue POST 1 ''tt0113277''
     [(''new_title'', ''inception''), (''new_rating'', ''7'')] two_films =
   (Render_error ''An error occurred while updating a movie'', two_films)"
  using reachable_two_films fetch_catalogue_inception update_heat_to_inception
  by (simp add: movie_by_imdbid_def)

subsection \<open>Listing the movies with details\<close>

lemma fetch_list_gateway: "fetch_movie_details (list_gateway t) = Inr (PList [PInt 1, PInt 2])"
  by (simp add: fetch_movie_details_def fetch_try_def raise_for_status_def response_json_def)

lemma movies_with_details_all_dicts:
  "\<forall>m\<in>set ms. \<exists>d. fetch_movie_details (nw (title m)) = Inr (PDict d) \<Longrightarrow>
   \<exists>ds. movies_with_details nw ms = Inr ds \<and> length ds = length ms"
proof (induction ms)
  case Nil
  then show ?case by simp
next
  case (Cons m ms)
  then obtain d where "fetch_movie_details (nw (title m)) = Inr (PDict d)"
    by auto
  moreover obtain ds where "movies_with_details nw ms = Inr ds" "length ds = length ms"
    using Cons by auto
  ultimately show ?case by (simp add: dict_unpack_def)
qed

lemma movies_with_details_mem:
  "movies_with_details nw ms = Inr ds \<Longrightarrow> m \<in> set ms \<Longrightarrow>
   fetch_movie_details (nw (title m)) = Inr (PDict d) \<Longrightarrow> dict_merge (to_dict m) d \<in> set ds"
  by (induction ms arbitrary: ds) (auto simp: dict_unpack_def split: sum.splits)

lemma dict_unpack_not_dict: "\<forall>d. v \<noteq> PDict d \<Longrightarrow> \<exists>e. dict_unpack a v = Inl e"
  by (cases v) (simp_all add: dict_unpack_def)

lemma movies_with_details_raises:
  "m \<in> set ms \<Longrightarrow> fetch_movie_details (nw (title m)) = Inr v \<Longrightarrow> \<forall>d. v \<noteq> PDict d \<Longrightarrow>
   \<exists>e. movies_with_details nw ms = Inl e"
proof (induction ms)
  case Nil
  then show ?case by simp
next
  case (Cons x xs)
  show ?case
  proof (cases "m = x")
    case True
    obtain e where "dict_unpack (to_dict x) v = Inl e"
      using dict_unpack_not_dict [OF Cons.prems(3)] by blast
    then show ?thesis
      using True Cons.prems(2) by simp
  next
    case False
    then have "m \<in> set xs" using Cons.prems(1) by simp
    then obtain e where "movies_with_details nw xs = Inl e"
      using Cons.IH Cons.prems(2,3) by blast
    then show ?thesis
      by (auto split: sum.splits)
  qed
qed

lemma map_of_rev_distinct: "distinct (map fst xs) \<Longrightarrow> map_of (rev xs) = map_of xs"
proof (induction xs)
  case Nil
  then show ?case by simp
next
  case (Cons x xs)
  then have "fst x \<notin> dom (map_of xs)"
    by (simp add: dom_map_of_conv_image_fst)
  then have "map_of xs (fst x) = None" by blast
  then show ?case
    using Cons by (cases x) (auto simp: map_add_def fun_eq_iff split: option.splits)
qed

lemma dict_get_merge_right:
  "distinct (map fst b) \<Longrightarrow> map_of b k = Some v \<Longrightarrow> dict_get (dict_merge a b) k dflt = v"
  by (simp add: dict_get_def map_of_dict_merge map_of_rev_distinct)

lemma dict_get_merge_left:
  "distinct (map fst b) \<Longrightarrow> map_of b k = None \<Longrightarrow>
   dict_get (dict_merge a b) k dflt = dict_get a k dflt"
  by (simp add: dict_get_def map_of_dict_merge map_of_rev_distinct map_add_def)

text \<open>
  C1, as the code has it. When the gateway's answer for each movie of the user is a
  JSON object, the page shows one record per movie, and the record of a movie is
  \<open>{**movie.to_dict(), **movie_details}\<close>: under every key the gateway's answer has, the
  record holds the gateway's value, also where the stored movie has a value under that
  key (\<open>Title\<close>, \<open>Year\<close>, \<open>Genre\<close>, \<open>Director\<close>); the stored value is shown under the
  keys the gateway's answer lacks, so under all of them when the answer is empty.
  When the answer for one of the user's movies is a document that is no object, the
  unpacking raises, the page is the error page and no record is shown.
\<close>

theorem list_with_details_gateway_precedence:
  assumes "User_query_get user_id s = Some u"
  shows "((\<forall>m\<in>set (user_movies u s). \<exists>d. fetch_movie_details (nw (title m)) = Inr (PDict d)) \<longrightarrow>
          (\<exists>ds. get_user_movies nw user_id s = Render_movies ds user_id \<and>
                length ds = length (user_movies u s) \<and>
                (\<forall>m\<in>set (user_movies u s). \<forall>d.
                   fetch_movie_details (nw (title m)) = Inr (PDict d) \<longrightarrow> distinct (map fst d) \<longrightarrow>
                   dict_merge (to_dict m) d \<in> set ds \<and>
                   (\<forall>k v. map_of d k = Some v \<longrightarrow>
                          dict_get (dict_merge (to_dict m) d) k dflt = v) \<and>
                   (\<forall>k. map_of d k = None \<longrightarrow>
                        dict_get (dict_merge (to_dict m) d) k dflt = dict_get (to_dict m) k dflt)))) \<and>
         ((\<exists>m\<in>set (user_movies u s). \<exists>v.
             fetch_movie_details (nw (title m)) = Inr v \<and> (\<forall>d. v \<noteq> PDict d)) \<longrightarrow>
          get_user_movies nw user_id s =
            Render_error ''An error occurred while retrieving user movies'')"
proof (intro conjI impI)
  assume all: "\<forall>m\<in>set (user_movies u s). \<exists>d. fetch_movie_details (nw (title m)) = Inr (PDict d)"
  obtain ds where ds: "movies_with_details nw (user_movies u s) = Inr ds"
    and len: "length ds = length (user_movies u s)"
    using movies_with_details_all_dicts [OF all] by blast
  have page: "get_user_movies nw user_id s = Render_movies ds user_id"
    using assms ds by (simp add: get_user_movies_def)
  have "\<forall>m\<in>set (user_movies u s). \<forall>d.
          fetch_movie_details (nw (title m)) = Inr (PDict d) \<longrightarrow> distinct (map fst d) \<longrightarrow>
          dict_merge (to_dict m) d \<in> set ds \<and>
          (\<forall>k v. map_of d k = Some v \<longrightarrow> dict_get (dict_merge (to_dict m) d) k dflt = v) \<and>
          (\<forall>k. map_of d k = None \<longrightarrow>
               dict_get (dict_merge (to_dict m) d) k dflt = dict_get (to_dict m) k dflt)"
    using movies_with_details_mem [OF ds]
    by (auto simp: dict_get_merge_right dict_get_merge_left)
  with page len show
    "\<exists>ds. get_user_movies nw user_id s = Render_movies ds user_id \<and>
          length ds = length (user_movies u s) \<and>
          (\<forall>m\<in>set (user_movies u s). \<forall>d.
             fetch_movie_details (nw (title m)) = Inr (PDict d) \<longrightarrow> distinct (map fst d) \<longrightarrow>
             dict_merge (to_dict m) d \<in> set ds \<and>
             (\<forall>k v. map_of d k = Some v \<longrightarrow> dict_get (dict_merge (to_dict m) d) k dflt = v) \<and>
             (\<forall>k. map_of d k = None \<longrightarrow>
                  dict_get (dict_merge (to_dict m) d) k dflt = dict_get (to_dict m) k dflt))"
    by blast
next
  assume "\<exists>m\<in>set (user_movies u s). \<exists>v.
            fetch_movie_details (nw (title m)) = Inr v \<and> (\<forall>d. v \<noteq> PDict d)"
  then obtain e where "movies_with_details nw (user_movies u s) = Inl e"
    using movies_with_details_raises by blast
  then show "get_user_movies nw user_id s =
               Render_error ''An error occurred while retrieving user movies''"
    using assms by (simp add: get_user_movies_def)
qed

theorem list_with_details_gateway_precedence_witness:
  "User_query_get 1 drama_db = Some alice \<and>
   drama_movie \<in> set (user_movies alice drama_db) \<and>
   fetch_movie_details (comedy_gateway (title drama_movie)) = Inr (PDict comedy_details) \<and>
   distinct (map fst comedy_details) \<and>
   dict_get (dict_merge (to_dict drama_movie) comedy_details) ''Genre'' PNone = PStr ''Comedy'' \<and>
   dict_get (dict_merge (to_dict drama_movie) comedy_details) ''Year'' PNone = PStr ''1995'' \<and>
   fetch_movie_details (list_gateway (title drama_movie)) = Inr (PList [PInt 1, PInt 2]) \<and>
   get_user_movies list_gateway 1 drama_db =
     Render_error ''An error occurred while retrieving user movies''"
proof -
  have a: "User_query_get 1 drama_db = Some alice"
    by (simp add: User_query_get_def)
  have b: "drama_movie \<in> set (user_movies alice drama_db)"
    by (simp add: user_movies_def)
  have c: "distinct (map fst comedy_details)" by simp
  have all: "\<forall>m\<in>set (user_movies alice drama_db).
               \<exists>d. fetch_movie_details (comedy_gateway (title m)) = Inr (PDict d)"
    using fetch_comedy by blast
  from list_with_details_gateway_precedence [OF a, of comedy_gateway PNone] all
  obtain ds where
    "\<forall>m\<in>set (user_movies alice drama_db). \<forall>d.
       fetch_movie_details (comedy_gateway (title m)) = Inr (PDict d) \<longrightarrow> distinct (map fst d) \<longrightarrow>
       dict_merge (to_dict m) d \<in> set ds \<and>
       (\<forall>k v. map_of d k = Some v \<longrightarrow> dict_get (dict_merge (to_dict m) d) k PNone = v) \<and>
       (\<forall>k. map_of d k = None \<longrightarrow>
            dict_get (dict_merge (to_dict m) d) k PNone = dict_get (to_dict m) k PNone)"
    by blast
  with b fetch_comedy c have
    g: "\<forall>k v. map_of comedy_details k = Some v \<longrightarrow>
             dict_get (dict_merge (to_dict drama_movie) comedy_details) k PNone = v"
   and l: "\<forall>k. map_of comedy_details k = None \<longrightarrow>
             dict_get (dict_merge (to_dict drama_movie) comedy_details) k PNone =
             dict_get (to_dict drama_movie) k PNone"
    by blast+
  have g': "dict_get (dict_merge (to_dict drama_movie) comedy_details) ''Genre'' PNone = PStr ''Comedy''"
    using g by simp
  have l': "dict_get (dict_merge (to_dict drama_movie) comedy_details) ''Year'' PNone = PStr ''1995''"
    using l by (simp add: to_dict_def dict_get_def)
  have bad: "\<exists>m\<in>set (user_movies alice drama_db). \<exists>v.
               fetch_movie_details (list_gateway (title m)) = Inr v \<and> (\<forall>d. v \<noteq> PDict d)"
    using b fetch_list_gateway by blast
  have err: "get_user_movies list_gateway 1 drama_db =
               Render_error ''An error occurred while retrieving user movies''"
    using list_with_details_gateway_precedence [OF a, of list_gateway PNone] bad by blast
  show ?thesis
    using a b c g' l' err fetch_comedy
      fetch_list_gateway by blast
qed

text \<open>
  The claim C1 as stated fails: the stored genre is \<open>Drama\<close>, the gateway's is
  \<open>Comedy\<close>, and the record on the page has \<open>Comedy\<close>.
\<close>

theorem list_with_details_counterexample:
  "get_user_movies comedy_gateway 1 drama_db =
     Render_movies
       [[(''Id'', PInt 1), (''Title'', PStr ''Heat''), (''Year'', PStr ''1995''),
         (''Genre'', PStr ''Comedy''), (''Director'', PStr ''Michael Mann''),
         (''Rating'', PStr ''8''), (''Plot'', PStr ''A heist'')]] 1 \<and>
   genre drama_movie = PStr ''Drama''"
  by (simp add: get_user_movies_def User_query_get_def user_movies_def fetch_comedy
        dict_unpack_def dict_merge_def to_dict_def)

subsection \<open>Deleting a user\<close>

lemma session_delete_movies_effect:
  "session_delete_movies ms s = Inr s' \<Longrightarrow>
   users s' = users s \<and> reviews s' = reviews s \<and>
   movies s' = filter (\<lambda>m. m_id m \<notin> set (map m_id ms)) (movies s)"
  by (auto simp: session_delete_movies_def split: if_splits)

text \<open>
  C2, as the code has it. When \<open>delete_user\<close> succeeds, the user is gone and no movie
  owned by the user remains, and no other movie was added; the review table is what it
  was: \<open>delete_user\<close> deletes no review, so the reviews the user wrote and the reviews of
  the user's former movies remain.
\<close>

theorem delete_user_removes_movies_keeps_reviews:
  assumes "delete_user POST user_id s = (Redirect ''list_users'' None, s')"
  shows "User_query_get user_id s' = None \<and>
         users s' = filter (\<lambda>x. u_id x \<noteq> user_id) (users s) \<and>
         (\<forall>m\<in>set (movies s'). m_user_id m \<noteq> user_id) \<and>
         set (movies s') \<subseteq> set (movies s) \<and>
         reviews s' = reviews s"
proof -
  from assms obtain u where u: "User_query_get user_id s = Some u"
    by (auto simp: delete_user_def split: option.splits)
  then have uid: "u_id u = user_id"
    by (auto simp: User_query_get_def find_Some_iff)
  from assms u obtain s1 where
    s1: "session_delete_movies (user_movies u s) s = Inr s1" and
    s': "s' = s1\<lparr>users := filter (\<lambda>x. u_id x \<noteq> u_id u) (users s1)\<rparr>"
    by (auto simp: delete_user_def session_delete_user_def split: sum.splits)
  note eff = session_delete_movies_effect [OF s1]
  have users: "users s' = filter (\<lambda>x. u_id x \<noteq> user_id) (users s)"
    using s' eff uid by simp
  have none: "User_query_get user_id s' = None"
    unfolding User_query_get_def users by (simp add: find_None_iff)
  have mv: "movies s' = filter (\<lambda>m. m_id m \<notin> set (map m_id (user_movies u s))) (movies s)"
    using s' eff by simp
  have gone: "\<forall>m\<in>set (movies s'). m_user_id m \<noteq> user_id"
    unfolding mv using uid by (auto simp: user_movies_def)
  have sub: "set (movies s') \<subseteq> set (movies s)"
    unfolding mv by auto
  have rv: "reviews s' = reviews s"
    using s' eff by simp
  from none users gone sub rv show ?thesis by blast
qed

theorem delete_user_removes_movies_keeps_reviews_witness:
  "delete_user POST 1 db3 =
     (Redirect ''list_users'' None, \<lparr>users = [], movies = [], reviews = [alice_review]\<rparr>) \<and>
   User_query_get 1 \<lparr>users = [], movies = [], reviews = [alice_review]\<rparr> = None \<and>
   reviews \<lparr>users = [], movies = [], reviews = [alice_review]\<rparr> = reviews db3"
  using delete_user_removes_movies_keeps_reviews [OF delete_user_db3] delete_user_db3
  by simp

text \<open>
  The claim C2 as stated fails: after a user, a movie and a review of that movie were
  added through the routes, deleting the user succeeds and the review, written by that
  user about that movie, is still in the store.
\<close>

theorem delete_user_leaves_review_counterexample:
  "reachable db3 \<and>
   delete_user POST 1 db3 =
     (Redirect ''list_users'' None, \<lparr>users = [], movies = [], reviews = [alice_review]\<rparr>) \<and>
   r_user_id alice_review = 1 \<and> r_movie_id alice_review = imdbid alice_movie"
  using reachable_db3 delete_user_db3 by simp

subsection \<open>Unique imdb ids\<close>

text \<open>The invariant of the movie table: the ids are distinct, and so are the imdb ids
  that are not NULL.\<close>

lemma distinct_filter_map_filter:
  "distinct (filter P (map f xs)) \<Longrightarrow> distinct (filter P (map f (filter Q xs)))"
  by (induction xs) auto

lemma distinct_map_filter_keep:
  "distinct (map f xs) \<Longrightarrow> distinct (map f (filter Q xs))"
  by (induction xs) auto

lemma same_key_same_row:
  "distinct (filter P (map f xs)) \<Longrightarrow> a \<in> set xs \<Longrightarrow> b \<in> set xs \<Longrightarrow>
   f a = f b \<Longrightarrow> P (f a) \<Longrightarrow> a = b"
proof (induction xs)
  case Nil
  then show ?case by simp
next
  case (Cons x xs)
  have d: "distinct (filter P (map f xs))"
    using Cons.prems(1) by (simp split: if_splits)
  have fresh: "P (f x) \<Longrightarrow> f x \<notin> set (map f xs)"
    using Cons.prems(1) by (simp split: if_splits)
  show ?case
  proof (cases "a = x")
    case True
    show ?thesis
    proof (cases "b = x")
      case True
      with \<open>a = x\<close> show ?thesis by simp
    next
      case False
      then have "b \<in> set xs" using Cons.prems(3) by simp
      then have "f b \<in> set (map f xs)" by simp
      then show ?thesis
        using fresh True Cons.prems(4,5) by simp
    qed
  next
    case False
    then have a: "a \<in> set xs" using Cons.prems(2) by simp
    show ?thesis
    proof (cases "b = x")
      case True
      have "f a \<in> set (map f xs)" using a by simp
      then show ?thesis
        using fresh True Cons.prems(4,5) by simp
    next
      case False
      then have "b \<in> set xs" using Cons.prems(3) by simp
      then show ?thesis
        using Cons.IH [OF d a] Cons.prems(4,5) by simp
    qed
  qed
qed

lemma check_movie_row_unique:
  "check_movie_row m others = Inr () \<Longrightarrow>
   imdbid m = PNone \<or> imdbid m \<notin> set (map imdbid others)"
  by (auto simp: check_movie_row_def split: if_splits)

lemma update_row_ids:
  "map m_id (map (\<lambda>x. if m_id x = m_id m' then m' else x) xs) = map m_id xs"
  by (induction xs) auto

lemma update_row_absent:
  "m_id m' \<notin> set (map m_id xs) \<Longrightarrow> map (\<lambda>x. if m_id x = m_id m' then m' else x) xs = xs"
  by (induction xs) auto

lemma filter_others_absent:
  "m_id m' \<notin> set (map m_id xs) \<Longrightarrow> filter (\<lambda>x. m_id x \<noteq> m_id m') xs = xs"
  by (induction xs) auto

lemma update_row_imdbids:
  "set (map imdbid (map (\<lambda>x. if m_id x = m_id m' then m' else x) xs)) \<subseteq>
   insert (imdbid m') (set (map imdbid (filter (\<lambda>x. m_id x \<noteq> m_id m') xs)))"
  by (induction xs) auto

lemma update_row_distinct:
  assumes "distinct (map m_id xs)"
      and "distinct (filter (\<lambda>v. v \<noteq> PNone) (map imdbid xs))"
      and "imdbid m' = PNone \<or>
           imdbid m' \<notin> set (map imdbid (filter (\<lambda>x. m_id x \<noteq> m_id m') xs))"
  shows "distinct (filter (\<lambda>v. v \<noteq> PNone)
           (map imdbid (map (\<lambda>x. if m_id x = m_id m' then m' else x) xs)))"
  using assms
proof (induction xs)
  case Nil
  then show ?case by simp
next
  case (Cons x xs)
  show ?case
  proof (cases "m_id x = m_id m'")
    case True
    then have absent: "m_id m' \<notin> set (map m_id xs)"
      using Cons.prems(1) by auto
    have same: "map (\<lambda>y. if m_id y = m_id m' then m' else y) xs = xs"
      using absent by (rule update_row_absent)
    have others: "filter (\<lambda>y. m_id y \<noteq> m_id m') xs = xs"
      using absent by (rule filter_others_absent)
    have "imdbid m' = PNone \<or> imdbid m' \<notin> set (map imdbid xs)"
      using Cons.prems(3) True others by simp
    moreover have "distinct (filter (\<lambda>v. v \<noteq> PNone) (map imdbid xs))"
      using Cons.prems(2) by (simp split: if_splits)
    ultimately show ?thesis
      using True same by auto
  next
    case False
    have ih: "distinct (filter (\<lambda>v. v \<noteq> PNone)
                (map imdbid (map (\<lambda>y. if m_id y = m_id m' then m' else y) xs)))"
    proof (rule Cons.IH)
      show "distinct (map m_id xs)" using Cons.prems(1) by simp
      show "distinct (filter (\<lambda>v. v \<noteq> PNone) (map imdbid xs))"
        using Cons.prems(2) by (simp split: if_splits)
      show "imdbid m' = PNone \<or>
            imdbid m' \<notin> set (map imdbid (filter (\<lambda>x. m_id x \<noteq> m_id m') xs))"
        using Cons.prems(3) False by auto
    qed
    have new: "imdbid x \<noteq> PNone \<longrightarrow>
               imdbid x \<notin> set (map imdbid (map (\<lambda>y. if m_id y = m_id m' then m' else y) xs))"
    proof
      assume nn: "imdbid x \<noteq> PNone"
      have a: "imdbid x \<notin> set (map imdbid xs)"
        using Cons.prems(2) nn by auto
      have b: "imdbid x \<noteq> imdbid m'"
        using Cons.prems(3) False nn by auto
      have "set (map imdbid (map (\<lambda>y. if m_id y = m_id m' then m' else y) xs)) \<subseteq>
            insert (imdbid m') (set (map imdbid (filter (\<lambda>y. m_id y \<noteq> m_id m') xs)))"
        by (rule update_row_imdbids)
      moreover have "set (map imdbid (filter (\<lambda>y. m_id y \<noteq> m_id m') xs)) \<subseteq> set (map imdbid xs)"
        by auto
      ultimately show
        "imdbid x \<notin> set (map imdbid (map (\<lambda>y. if m_id y = m_id m' then m' else y) xs))"
        using a b by blast
    qed
    show ?thesis
      using False ih new by auto
  qed
qed

lemma session_add_movie_inv:
  assumes "session_add_movie m s = Inr s'"
      and "unique_imdbid s" and "distinct (map m_id (movies s))"
  shows "unique_imdbid s' \<and> distinct (map m_id (movies s'))"
proof -
  let ?m = "m\<lparr>m_id := next_id (map m_id (movies s))\<rparr>"
  from assms(1) have ok: "check_movie_row ?m (movies s) = Inr ()"
    and s': "s' = s\<lparr>movies := movies s @ [?m]\<rparr>"
    by (auto simp: session_add_movie_def Let_def split: sum.splits)
  have "imdbid ?m = PNone \<or> imdbid ?m \<notin> set (map imdbid (movies s))"
    using ok by (rule check_movie_row_unique)
  then have "unique_imdbid s'"
    using assms(2) s' by (auto simp: unique_imdbid_def)
  moreover have "distinct (map m_id (movies s'))"
    using assms(3) s' next_id_fresh [of "map m_id (movies s)"] by simp
  ultimately show ?thesis by simp
qed

lemma session_update_movie_inv:
  assumes "session_update_movie m' s = Inr s'"
      and "unique_imdbid s" and "distinct (map m_id (movies s))"
  shows "unique_imdbid s' \<and> distinct (map m_id (movies s'))"
proof -
  from assms(1) have
    ok: "check_movie_row m' (filter (\<lambda>x. m_id x \<noteq> m_id m') (movies s)) = Inr ()" and
    s': "s' = s\<lparr>movies := map (\<lambda>x. if m_id x = m_id m' then m' else x) (movies s)\<rparr>"
    by (auto simp: session_update_movie_def split: sum.splits)
  have "imdbid m' = PNone \<or>
        imdbid m' \<notin> set (map imdbid (filter (\<lambda>x. m_id x \<noteq> m_id m') (movies s)))"
    using ok by (rule check_movie_row_unique)
  then have "unique_imdbid s'"
    unfolding unique_imdbid_def s'
    using update_row_distinct [OF assms(3), of m'] assms(2)
    by (simp add: unique_imdbid_def)
  moreover have "map m_id (movies s') = map m_id (movies s)"
    unfolding s' using update_row_ids [of m' "movies s"] by (simp del: map_map)
  then have "distinct (map m_id (movies s'))"
    using assms(3) by simp
  ultimately show ?thesis by simp
qed

lemma session_delete_movies_inv:
  assumes "session_delete_movies ms s = Inr s'"
      and "unique_imdbid s" and "distinct (map m_id (movies s))"
  shows "unique_imdbid s' \<and> distinct (map m_id (movies s'))"
  using assms session_delete_movies_effect [OF assms(1)]
  by (simp add: unique_imdbid_def distinct_filter_map_filter distinct_map_filter_keep)

lemma handle_inv:
  assumes "unique_imdbid s" and "distinct (map m_id (movies s))"
  shows "unique_imdbid (snd (handle nw req s)) \<and>
         distinct (map m_id (movies (snd (handle nw req s))))"
proof (cases req)
  case (Add_user meth f)
  then show ?thesis
    using assms
    by (auto simp: add_user_def User_add_user_def unique_imdbid_def split: sum.splits)
next
  case (Delete_user meth user_id)
  then show ?thesis
    using assms session_delete_movies_inv
    by (auto simp: delete_user_def session_delete_user_def unique_imdbid_def
             split: option.splits sum.splits)
next
  case (Add_movie meth user_id f)
  then show ?thesis
    using assms session_add_movie_inv
    by (auto simp: add_movie_def add_movie_try_def
             split: sum.splits if_splits)
next
  case (Update_movie meth user_id movie_id f)
  then show ?thesis
    using assms session_update_movie_inv
    by (auto simp: update_movie_def update_movie_try_def
             split: sum.splits if_splits option.splits)
next
  case (Delete_movie meth user_id args)
  then show ?thesis
    using assms session_delete_movies_inv
    by (auto simp: delete_movie_def Let_def split: sum.splits if_splits option.splits)
next
  case (Add_review meth user_id movie_id f)
  then show ?thesis
    using assms
    by (auto simp: add_review_def unique_imdbid_def split: sum.splits option.splits)
next
  case (Add_user_movie user_id data)
  then show ?thesis
    using assms session_add_movie_inv
    by (auto simp: add_user_movie_def Let_def split: sum.splits if_splits option.splits)
qed

lemma reachable_inv:
  "reachable s \<Longrightarrow> unique_imdbid s \<and> distinct (map m_id (movies s))"
proof (induction rule: reachable.induct)
  case init
  then show ?case by (simp add: unique_imdbid_def empty_db_def)
next
  case (step s nw req)
  then show ?case using handle_inv by blast
next
  case (review_change s rs)
  then show ?case by (simp add: unique_imdbid_def)
qed

lemma unique_imdbid_lookup:
  assumes "unique_imdbid s" and "m \<in> set (movies s)" and "imdbid m = PStr x"
  shows "movie_by_imdbid x s = Some m"
proof -
  have "find (\<lambda>m. imdbid m = PStr x) (movies s) \<noteq> None"
    using assms(2,3) by (auto simp: find_None_iff)
  then obtain m' where f: "find (\<lambda>m. imdbid m = PStr x) (movies s) = Some m'"
    by auto
  then have "m' \<in> set (movies s)" and "imdbid m' = PStr x"
    by (auto simp: find_Some_iff)
  then have "m' = m"
    using same_key_same_row [of "\<lambda>v. v \<noteq> PNone" imdbid "movies s" m' m] assms
    by (simp add: unique_imdbid_def)
  with f show ?thesis by (simp add: movie_by_imdbid_def)
qed

lemma add_movie_appends:
  assumes "add_movie nw POST user_id f s = (Redirect ''get_user_movies'' (Some user_id), s')"
  shows "\<exists>m. movies s' = movies s @ [m]"
  using assms
  by (auto simp: add_movie_def add_movie_try_def session_add_movie_def Let_def
           split: sum.splits if_splits)

text \<open>
  C7. In every store the routes reach, a movie whose imdb id is the string \<open>x\<close> is what
  the lookup by \<open>x\<close> returns, and no other movie is: two movies with the same imdb id
  (other than NULL) are one movie, and the movies have distinct ids. In particular the
  movie that a successful \<open>add_movie\<close> creates is found by its imdb id right after.
\<close>

theorem movie_by_imdbid_roundtrip:
  assumes "reachable s"
  shows "(\<forall>m\<in>set (movies s). \<forall>x. imdbid m = PStr x \<longrightarrow> movie_by_imdbid x s = Some m) \<and>
         (\<forall>m1\<in>set (movies s). \<forall>m2\<in>set (movies s).
            imdbid m1 = imdbid m2 \<longrightarrow> imdbid m1 \<noteq> PNone \<longrightarrow> m1 = m2) \<and>
         distinct (map m_id (movies s)) \<and>
         (\<forall>nw user_id f s'.
            add_movie nw POST user_id f s = (Redirect ''get_user_movies'' (Some user_id), s') \<longrightarrow>
            (\<exists>m. movies s' = movies s @ [m] \<and>
                 (\<forall>x. imdbid m = PStr x \<longrightarrow> movie_by_imdbid x s' = Some m)))"
proof -
  have inv: "unique_imdbid s" "distinct (map m_id (movies s))"
    using reachable_inv [OF assms] by simp_all
  have a: "\<forall>m\<in>set (movies s). \<forall>x. imdbid m = PStr x \<longrightarrow> movie_by_imdbid x s = Some m"
    using unique_imdbid_lookup [OF inv(1)] by blast
  have b: "\<forall>m1\<in>set (movies s). \<forall>m2\<in>set (movies s).
            imdbid m1 = imdbid m2 \<longrightarrow> imdbid m1 \<noteq> PNone \<longrightarrow> m1 = m2"
    using same_key_same_row [of "\<lambda>v. v \<noteq> PNone" imdbid "movies s"] inv(1)
    by (auto simp: unique_imdbid_def)
  have c: "\<exists>m. movies s' = movies s @ [m] \<and>
                 (\<forall>x. imdbid m = PStr x \<longrightarrow> movie_by_imdbid x s' = Some m)"
    if ok: "add_movie nw POST user_id f s = (Redirect ''get_user_movies'' (Some user_id), s')"
    for nw user_id f s'
  proof -
    have "reachable (snd (handle nw (Add_movie POST user_id f) s))"
      using assms by (rule reachable.step)
    then have "reachable s'" using ok by simp
    then have u: "unique_imdbid s'" using reachable_inv by blast
    obtain m where m: "movies s' = movies s @ [m]"
      using add_movie_appends [OF ok] by blast
    then have "m \<in> set (movies s')" by simp
    then have "\<forall>x. imdbid m = PStr x \<longrightarrow> movie_by_imdbid x s' = Some m"
      using unique_imdbid_lookup [OF u] by blast
    with m show ?thesis by blast
  qed
  from a b inv(2) c show ?thesis by blast
qed

theorem movie_by_imdbid_roundtrip_witness:
  "reachable db1 \<and>
   add_movie omdb POST 1 movie_form db1 = (Redirect ''get_user_movies'' (Some 1), db2) \<and>
   movies db2 = movies db1 @ [alice_movie] \<and>
   movie_by_imdbid ''tt1375666'' db2 = Some alice_movie"
proof -
  have ok: "add_movie omdb POST 1 movie_form db1 = (Redirect ''get_user_movies'' (Some 1), db2)"
    by (simp add: add_movie_def add_movie_try_def form_get_def fetch_omdb details_get_def
          py_get_def dict_get_def session_add_movie_def check_movie_row_def next_id_def)
  from movie_by_imdbid_roundtrip [OF reachable_db2]
  have "\<forall>m\<in>set (movies db2). \<forall>x. imdbid m = PStr x \<longrightarrow> movie_by_imdbid x db2 = Some m"
    by blast
  then have "movie_by_imdbid ''tt1375666'' db2 = Some alice_movie"
    by simp
  with ok reachable_db1 show ?thesis by simp
qed

end
